theory Spec2Isabelle
  imports Main "HOL-Library.Sublist"
begin

section \<open>JavaScript values and string operations used by addon.js\<close>

text \<open>
  A field of an upstream JSON record is either missing (\<open>undefined\<close> when read),
  \<open>null\<close>, or holds a value. Strict equality \<open>===\<close> on such fields (strings,
  \<open>null\<close>, \<open>undefined\<close>) is equality of this datatype.
\<close>

datatype 'a js = Undefined | Null | Val 'a

text \<open>ToBoolean on a string-or-absent value: only a non-empty string is truthy.\<close>

fun truthy :: "string js \<Rightarrow> bool" where
  "truthy (Val s) = (s \<noteq> [])"
| "truthy Undefined = False"
| "truthy Null = False"

text \<open>ToBoolean on an object-or-absent value: every object is truthy.\<close>

fun is_obj :: "'a js \<Rightarrow> bool" where
  "is_obj (Val x) = True"
| "is_obj Undefined = False"
| "is_obj Null = False"

text \<open>String conversion, as a template literal \<open>${x}\<close> and a property key perform it.\<close>

fun to_str :: "string js \<Rightarrow> string" where
  "to_str (Val s) = s"
| "to_str Undefined = ''undefined''"
| "to_str Null = ''null''"

text \<open>
  A string is the list of the bytes of its UTF-8 encoding. \<open>toLowerCase\<close> and
  \<open>toUpperCase\<close> of \<open>String.prototype\<close> follow the Unicode case tables of the
  JavaScript runtime, which are not part of the program: they are the two fields of an
  argument \<open>rt\<close> of every function that uses them, and nothing is assumed of them.
\<close>

record runtime =
  toLowerCase :: "string \<Rightarrow> string"
  toUpperCase :: "string \<Rightarrow> string"

text \<open>\<open>s.startsWith(p)\<close> is \<open>prefix p s\<close>, \<open>s.endsWith(p)\<close> is \<open>suffix p s\<close>.\<close>

text \<open>\<open>s.includes(q)\<close> on strings: \<open>q\<close> occurs in \<open>s\<close> at some position.\<close>

fun includes_str :: "string \<Rightarrow> string \<Rightarrow> bool" where
  "includes_str [] q = (q = [])"
| "includes_str (c # cs) q = (prefix q (c # cs) \<or> includes_str cs q)"

text \<open>
  \<open>s.replace(pat, rep)\<close> with a string pattern: the first occurrence of \<open>pat\<close> in
  \<open>s\<close>, searched from the left, is replaced (the replacements used by the program
  hold no \<open>$\<close>).
\<close>

fun replace_first :: "string \<Rightarrow> string \<Rightarrow> string \<Rightarrow> string" where
  "replace_first pat rep [] = (if pat = [] then rep else [])"
| "replace_first pat rep (c # cs) =
     (if prefix pat (c # cs) then rep @ drop (length pat) (c # cs)
      else c # replace_first pat rep cs)"

text \<open>\<open>xs.join(sep)\<close> on an array of strings.\<close>

fun join :: "string \<Rightarrow> string list \<Rightarrow> string" where
  "join sep [] = []"
| "join sep [x] = x"
| "join sep (x # y # ys) = x @ sep @ join sep (y # ys)"

text \<open>\<open>xs.find(p)\<close>: the first element satisfying \<open>p\<close>, or \<open>undefined\<close>.\<close>

definition js_find :: "('a \<Rightarrow> bool) \<Rightarrow> 'a list \<Rightarrow> 'a js" where
  "js_find p xs = (case List.find p xs of Some x \<Rightarrow> Val x | None \<Rightarrow> Undefined)"

text \<open>
  \<open>xs.sort(cmp)\<close>: a stable sort by a comparator; \<open>cmp a b \<le> 0\<close> keeps \<open>a\<close>
  before \<open>b\<close>.
\<close>

fun insert_by :: "('a \<Rightarrow> 'a \<Rightarrow> int) \<Rightarrow> 'a \<Rightarrow> 'a list \<Rightarrow> 'a list" where
  "insert_by cmp x [] = [x]"
| "insert_by cmp x (y # ys) =
     (if cmp x y \<le> 0 then x # y # ys else y # insert_by cmp x ys)"

fun js_sort :: "('a \<Rightarrow> 'a \<Rightarrow> int) \<Rightarrow> 'a list \<Rightarrow> 'a list" where
  "js_sort cmp [] = []"
| "js_sort cmp (x # xs) = insert_by cmp x (js_sort cmp xs)"

section \<open>Data model\<close>

text \<open>
  The records of the upstream JSON documents. The fields that the program tests for
  absence (with \<open>?.\<close>, \<open>||\<close>, \<open>&&\<close> or an \<open>if\<close>) or compares with \<open>===\<close> are optional
  here; a channel's \<open>name\<close>, the \<open>url\<close> of a stream and of a logo (strings) and the
  \<open>width\<close> of a logo (an integer) are read without a test and are taken as given.
\<close>

record channel =
  c_id :: "string js"
  c_name :: string
  c_country :: "string js"
  c_categories :: "string list js"
  c_logo :: "string js"

record stream =
  s_channel :: "string js"
  s_url :: string

record guide =
  g_channel :: "string js"
  g_now :: "string js"
  g_next :: "string js"
  g_image :: "string js"

record logo =
  l_channel :: "string js"
  l_url :: string
  l_width :: int
  l_format :: "string js"
  l_tags :: "string list js"

text \<open>The object built by \<open>extractGuideDetails\<close>.\<close>

record guide_details =
  nowPlaying :: string
  nextShow :: string
  currentShowImage :: "string js"

text \<open>The object built by \<open>toMeta\<close>.\<close>

record meta =
  m_id :: string
  m_type :: string
  m_name :: string
  m_poster :: string
  m_posterShape :: string
  m_background :: string
  m_logo :: string
  m_description :: string

text \<open>\<open>config\<close>: the settings object.\<close>

record config =
  countries :: "string list"
  genres :: "string list"

text \<open>\<open>params\<close>: the parsed extra segment of a catalog request.\<close>

record params =
  genre :: "string js"
  search :: "string js"

section \<open>Helpers\<close>

subsection \<open>getPoster\<close>

text \<open>\<open>guideDetails?.currentShowImage\<close>\<close>

definition guide_image :: "guide_details js \<Rightarrow> string js" where
  "guide_image gd = (case gd of Val d \<Rightarrow> currentShowImage d | _ \<Rightarrow> Undefined)"

text \<open>
  The filter of \<open>getPoster\<close>: \<open>l.channel === channel.id && l.tags?.includes('horizontal')
  && l.format?.toLowerCase() !== 'svg'\<close>.
\<close>

definition is_candidate :: "runtime \<Rightarrow> channel \<Rightarrow> logo \<Rightarrow> bool" where
  "is_candidate rt ch l \<longleftrightarrow>
     l_channel l = c_id ch \<and>
     (case l_tags l of Val ts \<Rightarrow> ''horizontal'' \<in> set ts | _ \<Rightarrow> False) \<and>
     (case l_format l of Val f \<Rightarrow> toLowerCase rt f \<noteq> ''svg'' | _ \<Rightarrow> True)"

definition candidates :: "runtime \<Rightarrow> logo list \<Rightarrow> channel \<Rightarrow> logo list" where
  "candidates rt logos ch = filter (is_candidate rt ch) logos"

text \<open>The comparator \<open>(a, b) => b.width - a.width\<close>.\<close>

definition by_width_desc :: "logo \<Rightarrow> logo \<Rightarrow> int" where
  "by_width_desc a b = l_width b - l_width a"

definition logo_template :: "string \<Rightarrow> string" where
  "logo_template i = ''https://iptv-org.github.io/logo/'' @ i @ ''.png''"

definition placeholder :: string where
  "placeholder = ''https://dl.strem.io/addon-background-landscape.jpg''"

text \<open>
  \<open>getPoster(channel, guideDetails)\<close>, with the list that \<open>fetchLogos()\<close> returned as
  the argument \<open>logos\<close>.
\<close>

definition getPoster :: "runtime \<Rightarrow> logo list \<Rightarrow> channel \<Rightarrow> guide_details js \<Rightarrow> string" where
  "getPoster rt logos ch gd =
     (if truthy (guide_image gd) then to_str (guide_image gd)
      else if candidates rt logos ch \<noteq> [] then
        l_url (hd (js_sort by_width_desc (candidates rt logos ch)))
      else if truthy (c_logo ch) \<and> \<not> suffix ''.svg'' (to_str (c_logo ch)) then to_str (c_logo ch)
      else if truthy (c_id ch) then logo_template (to_str (c_id ch))
      else placeholder)"

subsection \<open>extractGuideDetails\<close>

text \<open>\<open>a || b\<close> on strings: \<open>a\<close> when it is truthy, \<open>b\<close> otherwise.\<close>

definition or_else :: "string js \<Rightarrow> string js \<Rightarrow> string js" where
  "or_else a b = (if truthy a then a else b)"

text \<open>
  \<open>extractGuideDetails(guide)\<close>: \<open>null\<close> when \<open>!guide\<close>, else the three fields with
  their \<open>||\<close> defaults.
\<close>

definition extractGuideDetails :: "guide js \<Rightarrow> guide_details js" where
  "extractGuideDetails g =
     (case g of
        Val gu \<Rightarrow>
          Val \<lparr>nowPlaying = to_str (or_else (g_now gu) (Val ''Unknown'')),
               nextShow = to_str (or_else (g_next gu) (Val ''Unknown'')),
               currentShowImage = or_else (g_image gu) Null\<rparr>
      | _ \<Rightarrow> Null)"

subsection \<open>toMeta\<close>

text \<open>The separator of the description: a bullet (U+2022, three bytes) between spaces.\<close>

definition bullet :: string where
  "bullet = [CHR 0xE2, CHR 0x80, CHR 0xA2]"

definition sep :: string where
  "sep = '' '' @ bullet @ '' ''"

text \<open>
  The three parts of the description before \<open>.filter(Boolean)\<close>. The table \<open>COUNTRIES\<close>
  (the module \<open>./countries\<close>) is an argument: \<open>COUNTRIES[k]\<close> is \<open>table k\<close>.
\<close>

definition description_parts ::
  "(string \<Rightarrow> string js) \<Rightarrow> channel \<Rightarrow> guide_details js \<Rightarrow> string js list" where
  "description_parts table ch gd =
     [or_else (table (to_str (c_country ch))) (c_country ch),
      (case c_categories ch of Val cs \<Rightarrow> Val (join '', '' cs) | _ \<Rightarrow> Undefined),
      (case gd of
         Val d \<Rightarrow> Val (''Now: '' @ nowPlaying d @ sep @ ''Next: '' @ nextShow d)
       | _ \<Rightarrow> Null)]"

text \<open>
  \<open>toMeta(channel, guideDetails = null)\<close>: the default replaces an \<open>undefined\<close>
  argument by \<open>null\<close>.
\<close>

definition toMeta ::
  "runtime \<Rightarrow> (string \<Rightarrow> string js) \<Rightarrow> logo list \<Rightarrow> channel \<Rightarrow> guide_details js \<Rightarrow>
   meta" where
  "toMeta rt table logos ch gd0 =
     (let gd = (case gd0 of Undefined \<Rightarrow> Null | _ \<Rightarrow> gd0);
          poster = getPoster rt logos ch gd
      in \<lparr>m_id = ''iptv-'' @ to_str (c_id ch),
          m_type = ''tv'',
          m_name = c_name ch,
          m_poster = poster,
          m_posterShape = ''landscape'',
          m_background = poster,
          m_logo = poster,
          m_description =
            join sep (map to_str (filter truthy (description_parts table ch gd)))\<rparr>)"

subsection \<open>getGuideInfo\<close>

text \<open>\<open>guides.find(g => g.channel === channelID)\<close> on the cached guide list.\<close>

definition getGuideInfo :: "guide list \<Rightarrow> string js \<Rightarrow> guide js" where
  "getGuideInfo guides channelID = js_find (\<lambda>g. g_channel g = channelID) guides"

section \<open>Handlers\<close>

text \<open>
  Each handler is a function of what \<open>getData()\<close> and \<open>fetchLogos()\<close> returned for
  the request: the channel, stream, guide and logo lists. The calls made while one
  request is served are taken to return the same lists.
\<close>

subsection \<open>Catalog\<close>

text \<open>The list \<open>results\<close> after the five filtering steps, for \<open>req.params.id = cid\<close>.\<close>

definition catalog_results ::
  "runtime \<Rightarrow> config \<Rightarrow> channel list \<Rightarrow> stream list \<Rightarrow> string \<Rightarrow> params \<Rightarrow>
   channel list" where
  "catalog_results rt cfg channels streams cid ps =
     (let r1 = filter (\<lambda>c. list_ex (\<lambda>s. s_channel s = c_id c) streams) channels;
          r2 = (if prefix ''iptv-country-'' cid then
                  (let country = toUpperCase rt (replace_first ''iptv-country-'' [] cid)
                   in filter (\<lambda>c. c_country c = Val country) r1)
                else r1);
          r3 = (if genres cfg \<noteq> [] then
                  filter (\<lambda>c. case c_categories c of
                                 Val cs \<Rightarrow> list_ex (\<lambda>g. g \<in> set (genres cfg)) cs
                               | _ \<Rightarrow> False) r2
                else r2);
          r4 = (if truthy (genre ps) then
                  filter (\<lambda>c. case c_categories c of
                                 Val cs \<Rightarrow> to_str (genre ps) \<in> set cs
                               | _ \<Rightarrow> False) r3
                else r3);
          r5 = (if truthy (search ps) then
                  (let q = toLowerCase rt (to_str (search ps))
                   in filter (\<lambda>c. includes_str (toLowerCase rt (c_name c)) q) r4)
                else r4)
      in r5)"

text \<open>The list \<open>metas\<close> of the response.\<close>

definition catalog_handler ::
  "runtime \<Rightarrow> (string \<Rightarrow> string js) \<Rightarrow> logo list \<Rightarrow> config \<Rightarrow> channel list \<Rightarrow>
   stream list \<Rightarrow> guide list \<Rightarrow> string \<Rightarrow> params \<Rightarrow> meta list" where
  "catalog_handler rt table logos cfg channels streams guides cid ps =
     map (\<lambda>ch. toMeta rt table logos ch (extractGuideDetails (getGuideInfo guides (c_id ch))))
       (catalog_results rt cfg channels streams cid ps)"

subsection \<open>Meta\<close>

text \<open>The response \<open>{meta: {}}\<close> or \<open>{meta}\<close>.\<close>

datatype meta_response = EmptyMeta | Meta meta

text \<open>\<open>req.params.id.replace('iptv-', '')\<close> of the meta handler.\<close>

definition meta_channelId :: "string \<Rightarrow> string" where
  "meta_channelId rid = replace_first ''iptv-'' [] rid"

definition meta_handler ::
  "runtime \<Rightarrow> (string \<Rightarrow> string js) \<Rightarrow> logo list \<Rightarrow> channel list \<Rightarrow> guide list \<Rightarrow>
   string \<Rightarrow> meta_response" where
  "meta_handler rt table logos channels guides rid =
     (let channelId = meta_channelId rid
      in case js_find (\<lambda>c. c_id c = Val channelId) channels of
           Val ch \<Rightarrow>
             Meta (toMeta rt table logos ch
                     (extractGuideDetails (getGuideInfo guides (Val channelId))))
         | _ \<Rightarrow> EmptyMeta)"

subsection \<open>Stream\<close>

record stream_item =
  url :: string
  title :: string

text \<open>\<open>req.params.id.replace('iptv-', '')\<close> of the stream handler.\<close>

definition stream_channelId :: "string \<Rightarrow> string" where
  "stream_channelId rid = replace_first ''iptv-'' [] rid"

definition stream_handler :: "stream list \<Rightarrow> string \<Rightarrow> stream_item list" where
  "stream_handler streams rid =
     (let channelId = stream_channelId rid
      in case js_find (\<lambda>s. s_channel s = Val channelId) streams of
           Val st \<Rightarrow> [\<lparr>url = s_url st, title = ''Live''\<rparr>]
         | _ \<Rightarrow> [])"

section \<open>Cache\<close>

text \<open>The object \<open>cache\<close>, with fields \<open>channels\<close>, \<open>streams\<close> and \<open>guides\<close>.\<close>

record cache =
  cached_channels :: "channel list js"
  cached_streams :: "stream list js"
  cached_guides :: "guide list js"

text \<open>
  The module state that \<open>getData\<close> reads and writes, and the log of the GET requests
  issued so far.
\<close>

record store =
  cache :: cache
  lastFetch :: int
  requests :: "string list"

definition IPTV_CHANNELS_URL :: string where
  "IPTV_CHANNELS_URL = ''https://iptv-org.github.io/api/channels.json''"

definition IPTV_STREAMS_URL :: string where
  "IPTV_STREAMS_URL = ''https://iptv-org.github.io/api/streams.json''"

definition IPTV_GUIDES_URL :: string where
  "IPTV_GUIDES_URL = ''https://iptv-org.github.io/api/guides.json''"

definition TTL :: int where
  "TTL = 60 * 60 * 1000"

definition initial_store :: store where
  "initial_store =
     \<lparr>cache = \<lparr>cached_channels = Null, cached_streams = Null, cached_guides = Null\<rparr>, lastFetch = 0, requests = []\<rparr>"

text \<open>What an \<open>axios.get\<close> delivers: the parsed body, or a rejection.\<close>

datatype 'a response = Rejected | Resolved 'a

record upstream =
  channels_json :: "channel list response"
  streams_json :: "stream list response"
  guides_json :: "guide list response"

datatype error = FetchFailed

text \<open>
  \<open>getData()\<close>: \<open>now\<close> is \<open>Date.now()\<close> at the test, \<open>now'\<close> is \<open>Date.now()\<close> at
  the assignment to \<open>lastFetch\<close>, \<open>up\<close> is what the three requests deliver. The three
  requests are issued before any is awaited; a rejection of one makes \<open>Promise.all\<close>
  reject, and the assignments are not reached.
\<close>

definition getData :: "int \<Rightarrow> upstream \<Rightarrow> int \<Rightarrow> store \<Rightarrow> (error + cache) \<times> store" where
  "getData now up now' st =
     (if is_obj (cached_channels (cache st)) \<and> now - lastFetch st < TTL then (Inr (cache st), st)
      else
        (let st1 = st\<lparr>requests :=
                        requests st @ [IPTV_CHANNELS_URL, IPTV_STREAMS_URL, IPTV_GUIDES_URL]\<rparr>
         in case (channels_json up, streams_json up, guides_json up) of
              (Resolved c, Resolved s, Resolved g) \<Rightarrow>
                (let new = \<lparr>cached_channels = Val c, cached_streams = Val s, cached_guides = Val g\<rparr>
                 in (Inr new, st1\<lparr>cache := new, lastFetch := now'\<rparr>))
            | _ \<Rightarrow> (Inl FetchFailed, st1)))"

section \<open>Vocabulary of the specification\<close>

text \<open>A field is present when it is neither missing nor \<open>null\<close>.\<close>

fun present :: "'a js \<Rightarrow> bool" where
  "present (Val v) = True"
| "present Undefined = False"
| "present Null = False"

text \<open>The categories of a channel, none when the field is absent.\<close>

definition categories_of :: "channel \<Rightarrow> string list" where
  "categories_of c = (case c_categories c of Val cs \<Rightarrow> cs | _ \<Rightarrow> [])"

subsection \<open>Poster priority\<close>

text \<open>
  A logo qualifies for a channel: its channel is the channel's id, its tags contain
  \<open>horizontal\<close>, and its format, in lower case, is not \<open>svg\<close>.
\<close>

definition qualifies :: "runtime \<Rightarrow> channel \<Rightarrow> logo \<Rightarrow> bool" where
  "qualifies rt ch l \<longleftrightarrow>
     l_channel l = c_id ch \<and>
     (case l_tags l of Val ts \<Rightarrow> ''horizontal'' \<in> set ts | _ \<Rightarrow> False) \<and>
     (case l_format l of Val f \<Rightarrow> toLowerCase rt f \<noteq> ''svg'' | _ \<Rightarrow> True)"

text \<open>
  The priority chain, for a reading \<open>pres\<close> of "is present": \<open>r\<close> is a poster the
  chain allows for the channel.
\<close>

definition poster_rule ::
  "runtime \<Rightarrow> (string js \<Rightarrow> bool) \<Rightarrow> logo list \<Rightarrow> channel \<Rightarrow> guide_details js \<Rightarrow> string \<Rightarrow>
   bool" where
  "poster_rule rt pres logos ch gd r \<longleftrightarrow>
     (if pres (guide_image gd) then r = to_str (guide_image gd)
      else if \<exists>l\<in>set logos. qualifies rt ch l then
        (\<exists>l\<in>set logos. qualifies rt ch l \<and> r = l_url l \<and>
           (\<forall>l'\<in>set logos. qualifies rt ch l' \<longrightarrow> l_width l' \<le> l_width l))
      else if pres (c_logo ch) \<and> \<not> suffix ''.svg'' (to_str (c_logo ch)) then r = to_str (c_logo ch)
      else if pres (c_id ch) then r = logo_template (to_str (c_id ch))
      else r = placeholder)"

subsection \<open>Guide details\<close>

text \<open>
  The details of a guide record, for a reading \<open>keep\<close> of which field values are kept
  rather than replaced by the default.
\<close>

definition guide_details_rule :: "(string js \<Rightarrow> bool) \<Rightarrow> guide js \<Rightarrow> guide_details js" where
  "guide_details_rule keep g =
     (case g of
        Val gu \<Rightarrow>
          Val \<lparr>nowPlaying = (if keep (g_now gu) then to_str (g_now gu) else ''Unknown''),
               nextShow = (if keep (g_next gu) then to_str (g_next gu) else ''Unknown''),
               currentShowImage = (if keep (g_image gu) then g_image gu else Null)\<rparr>
      | _ \<Rightarrow> Null)"

text \<open>The guide record \<open>{}\<close>.\<close>

definition empty_guide :: guide where
  "empty_guide = \<lparr>g_channel = Undefined, g_now = Undefined, g_next = Undefined, g_image = Undefined\<rparr>"

subsection \<open>Catalog filters\<close>

definition has_stream :: "stream list \<Rightarrow> channel \<Rightarrow> bool" where
  "has_stream streams c \<longleftrightarrow> (\<exists>s\<in>set streams. s_channel s = c_id c)"

text \<open>The code segment of a catalog id \<open>iptv-country-<code>\<close>.\<close>

definition country_code :: "string \<Rightarrow> string" where
  "country_code cid = drop (length ''iptv-country-'') cid"

definition country_match :: "runtime \<Rightarrow> string \<Rightarrow> channel \<Rightarrow> bool" where
  "country_match rt cid c \<longleftrightarrow>
     (prefix ''iptv-country-'' cid \<longrightarrow> c_country c = Val (toUpperCase rt (country_code cid)))"

definition allowed_genre :: "config \<Rightarrow> channel \<Rightarrow> bool" where
  "allowed_genre cfg c \<longleftrightarrow>
     (genres cfg \<noteq> [] \<longrightarrow> (\<exists>g\<in>set (categories_of c). g \<in> set (genres cfg)))"

definition genre_match :: "(string js \<Rightarrow> bool) \<Rightarrow> params \<Rightarrow> channel \<Rightarrow> bool" where
  "genre_match supplied ps c \<longleftrightarrow>
     (supplied (genre ps) \<longrightarrow> to_str (genre ps) \<in> set (categories_of c))"

text \<open>
  The name contains the query case-insensitively: the query in lower case occurs in the
  name in lower case.
\<close>

definition search_match :: "runtime \<Rightarrow> (string js \<Rightarrow> bool) \<Rightarrow> params \<Rightarrow> channel \<Rightarrow> bool" where
  "search_match rt supplied ps c \<longleftrightarrow>
     (supplied (search ps) \<longrightarrow>
        sublist (toLowerCase rt (to_str (search ps))) (toLowerCase rt (c_name c)))"

text \<open>
  The catalog as the five filters applied in order and the survivors turned into
  metadata objects, for a reading \<open>supplied\<close> of "the parameter is supplied".
\<close>

definition catalog_rule ::
  "runtime \<Rightarrow> (string js \<Rightarrow> bool) \<Rightarrow> (string \<Rightarrow> string js) \<Rightarrow> logo list \<Rightarrow> config \<Rightarrow>
   channel list \<Rightarrow> stream list \<Rightarrow> guide list \<Rightarrow> string \<Rightarrow> params \<Rightarrow> meta list" where
  "catalog_rule rt supplied table logos cfg channels streams guides cid ps =
     map (\<lambda>ch. toMeta rt table logos ch (extractGuideDetails (getGuideInfo guides (c_id ch))))
       (filter (search_match rt supplied ps)
         (filter (genre_match supplied ps)
           (filter (allowed_genre cfg)
             (filter (country_match rt cid)
               (filter (has_stream streams) channels)))))"

subsection \<open>Cache\<close>

definition all_resolved :: "channel list \<Rightarrow> stream list \<Rightarrow> guide list \<Rightarrow> upstream" where
  "all_resolved c s g = \<lparr>channels_json = Resolved c, streams_json = Resolved s, guides_json = Resolved g\<rparr>"

definition cache_of :: "channel list \<Rightarrow> stream list \<Rightarrow> guide list \<Rightarrow> cache" where
  "cache_of c s g = \<lparr>cached_channels = Val c, cached_streams = Val s, cached_guides = Val g\<rparr>"

text \<open>The cache is fresh at time \<open>now\<close>: a cached value exists and less than the TTL has elapsed.\<close>

definition fresh :: "store \<Rightarrow> int \<Rightarrow> bool" where
  "fresh st now \<longleftrightarrow> present (cached_channels (cache st)) \<and> now - lastFetch st < TTL"

definition trio_urls :: "string list" where
  "trio_urls = [IPTV_CHANNELS_URL, IPTV_STREAMS_URL, IPTV_GUIDES_URL]"

definition any_rejected :: "upstream \<Rightarrow> bool" where
  "any_rejected up \<longleftrightarrow>
     channels_json up = Rejected \<or> streams_json up = Rejected \<or> guides_json up = Rejected"

section \<open>Sample data\<close>

text \<open>
  The sample strings hold ASCII characters only. On such strings the runtime's case
  mappings replace each letter by its counterpart and leave the other characters as they
  are; \<open>ascii_runtime\<close> does that.
\<close>

definition upper_letters :: string where
  "upper_letters = ''ABCDEFGHIJKLMNOPQRSTUVWXYZ''"

definition lower_letters :: string where
  "lower_letters = ''abcdefghijklmnopqrstuvwxyz''"

definition ascii_lower :: "char \<Rightarrow> char" where
  "ascii_lower c =
     (case map_of (zip upper_letters lower_letters) c of Some d \<Rightarrow> d | None \<Rightarrow> c)"

definition ascii_upper :: "char \<Rightarrow> char" where
  "ascii_upper c =
     (case map_of (zip lower_letters upper_letters) c of Some d \<Rightarrow> d | None \<Rightarrow> c)"

definition ascii_runtime :: runtime where
  "ascii_runtime = \<lparr>toLowerCase = map ascii_lower, toUpperCase = map ascii_upper\<rparr>"

text \<open>A channel whose own logo is the address that \<open>getPoster\<close> falls back to.\<close>

definition mirror_channel :: channel where
  "mirror_channel =
     \<lparr>c_id = Val ''Mirror.uk'', c_name = ''Mirror'', c_country = Val ''UK'',
      c_categories = Undefined,
      c_logo = Val ''https://dl.strem.io/addon-background-landscape.jpg''\<rparr>"

definition bbc :: channel where
  "bbc = \<lparr>c_id = Val ''BBCOne.uk'', c_name = ''BBC One'', c_country = Val ''UK'',
          c_categories = Val [''general''], c_logo = Val []\<rparr>"

definition logo_small :: logo where
  "logo_small = \<lparr>l_channel = Val ''BBCOne.uk'', l_url = ''https://i.example/small.png'',
                 l_width = 512, l_format = Val ''PNG'', l_tags = Val [''horizontal'']\<rparr>"

definition logo_wide :: logo where
  "logo_wide = \<lparr>l_channel = Val ''BBCOne.uk'', l_url = ''https://i.example/wide.png'',
                l_width = 1024, l_format = Undefined, l_tags = Val [''color'', ''horizontal'']\<rparr>"

definition logo_svg :: logo where
  "logo_svg = \<lparr>l_channel = Val ''BBCOne.uk'', l_url = ''https://i.example/vector.svg'',
               l_width = 4096, l_format = Val ''SVG'', l_tags = Val [''horizontal'']\<rparr>"

definition show_details :: guide_details where
  "show_details = \<lparr>nowPlaying = ''News'', nextShow = ''Sport'',
                   currentShowImage = Val ''https://i.example/show.jpg''\<rparr>"

definition bbc_guide :: guide where
  "bbc_guide = \<lparr>g_channel = Val ''BBCOne.uk'', g_now = Val ''News'', g_next = Val [],
                g_image = Val []\<rparr>"

definition bbc_stream :: stream where
  "bbc_stream = \<lparr>s_channel = Val ''BBCOne.uk'', s_url = ''https://s.example/bbc.m3u8''\<rparr>"

definition bbc_mirror :: stream where
  "bbc_mirror = \<lparr>s_channel = Val ''BBCOne.uk'', s_url = ''https://s.example/mirror.m3u8''\<rparr>"

definition orphan_stream :: stream where
  "orphan_stream = \<lparr>s_channel = Null, s_url = ''https://s.example/orphan.m3u8''\<rparr>"

definition sample_countries :: "string \<Rightarrow> string js" where
  "sample_countries k = (if k = ''UK'' then Val ''United Kingdom'' else Undefined)"

definition itv :: channel where
  "itv = \<lparr>c_id = Val ''ITV.uk'', c_name = ''ITV News'', c_country = Val ''UK'',
          c_categories = Val [''news''], c_logo = Undefined\<rparr>"

definition cnn :: channel where
  "cnn = \<lparr>c_id = Val ''CNN.us'', c_name = ''CNN'', c_country = Val ''US'',
          c_categories = Val [''news''], c_logo = Undefined\<rparr>"

definition cnn_stream :: stream where
  "cnn_stream = \<lparr>s_channel = Val ''CNN.us'', s_url = ''https://s.example/cnn.m3u8''\<rparr>"

definition no_config :: config where
  "no_config = \<lparr>countries = [], genres = []\<rparr>"

definition no_params :: params where
  "no_params = \<lparr>genre = Undefined, search = Undefined\<rparr>"

definition sample_upstream :: upstream where
  "sample_upstream = all_resolved [bbc] [bbc_stream] [bbc_guide]"

definition itv_stream :: stream where
  "itv_stream = \<lparr>s_channel = Val ''ITV.uk'', s_url = ''https://s.example/itv.m3u8''\<rparr>"

section \<open>Properties of the string and list operations\<close>

lemma truthy_iff: "truthy x \<longleftrightarrow> (\<exists>s. x = Val s \<and> s \<noteq> [])"
  by (cases x) auto

lemma present_iff: "present x \<longleftrightarrow> (\<exists>v. x = Val v)"
  by (cases x) auto

lemma set_insert_by: "set (insert_by cmp x xs) = insert x (set xs)"
  by (induction xs) auto

lemma set_js_sort: "set (js_sort cmp xs) = set xs"
  by (induction xs) (auto simp: set_insert_by)

lemma js_sort_Nil: "js_sort cmp xs = [] \<longleftrightarrow> xs = []"
  by (metis set_js_sort set_empty)

lemma hd_js_sort_mem: "xs \<noteq> [] \<Longrightarrow> hd (js_sort cmp xs) \<in> set xs"
  by (metis hd_in_set js_sort_Nil set_js_sort)

lemma replace_first_prefix: "replace_first pat rep (pat @ s) = rep @ s"
proof (cases "pat @ s")
  case Nil
  then show ?thesis by simp
next
  case (Cons a list)
  have "prefix pat (a # list)"
    by (metis Cons prefixI)
  moreover have "drop (length pat) (a # list) = s"
    by (metis Cons append_eq_conv_conj)
  ultimately show ?thesis
    by (simp add: Cons)
qed

lemma strip_iptv: "replace_first ''iptv-'' [] (''iptv-'' @ s) = s"
  using replace_first_prefix [of "''iptv-''" "[]" s] by simp

lemma includes_str_sublist: "includes_str s q \<longleftrightarrow> sublist q s"
  by (induction s) (auto simp: sublist_Cons_right)

text \<open>\<open>find\<close> returns \<open>undefined\<close> when nothing matches, and the first match otherwise.\<close>

lemma js_find_cases:
  obtains "js_find p xs = Undefined" "\<forall>x\<in>set xs. \<not> p x"
  | i where "i < length xs" "p (xs ! i)" "\<forall>j<i. \<not> p (xs ! j)" "js_find p xs = Val (xs ! i)"
proof (cases "List.find p xs")
  case None
  have "js_find p xs = Undefined"
    by (simp add: js_find_def None)
  moreover from None have "\<forall>x\<in>set xs. \<not> p x"
    by (simp add: find_None_iff)
  ultimately show ?thesis by (rule that(1))
next
  case (Some x)
  then obtain i where "i < length xs" "p (xs ! i)" "x = xs ! i" "\<forall>j<i. \<not> p (xs ! j)"
    by (auto simp: find_Some_iff)
  with Some show ?thesis
    by (intro that(2) [of i]) (simp_all add: js_find_def)
qed

section \<open>The poster\<close>

lemma is_candidate_qualifies: "is_candidate rt ch l = qualifies rt ch l"
  by (simp add: is_candidate_def qualifies_def)

lemma candidates_empty_iff:
  "candidates rt logos ch = [] \<longleftrightarrow> \<not> (\<exists>l\<in>set logos. qualifies rt ch l)"
  by (auto simp: candidates_def filter_empty_conv is_candidate_qualifies)

text \<open>Sorting by the comparator of \<open>getPoster\<close> puts a widest logo first.\<close>

lemma sorted_insert_by:
  "sorted_wrt (\<lambda>a b. l_width b \<le> l_width a) xs \<Longrightarrow>
   sorted_wrt (\<lambda>a b. l_width b \<le> l_width a) (insert_by by_width_desc x xs)"
  by (induction xs) (auto simp: set_insert_by by_width_desc_def)

lemma sorted_js_sort: "sorted_wrt (\<lambda>a b. l_width b \<le> l_width a) (js_sort by_width_desc xs)"
  by (induction xs) (auto simp: sorted_insert_by)

lemma hd_sorted_widest:
  "sorted_wrt (\<lambda>a b. l_width b \<le> l_width a) ys \<Longrightarrow> y \<in> set ys \<Longrightarrow> l_width y \<le> l_width (hd ys)"
  by (cases ys) auto

lemma hd_js_sort_widest:
  assumes "l \<in> set xs"
  shows "l_width l \<le> l_width (hd (js_sort by_width_desc xs))"
  using hd_sorted_widest [OF sorted_js_sort, of l xs] assms by (simp add: set_js_sort)

lemma logo_template_not_placeholder: "logo_template i \<noteq> placeholder"
  by (simp add: logo_template_def placeholder_def)

lemmas ascii_defs = ascii_runtime_def ascii_lower_def ascii_upper_def upper_letters_def
  lower_letters_def

text \<open>The widest candidate that \<open>getPoster\<close> picks is a qualifying logo of the list.\<close>

lemma widest_candidate:
  assumes "candidates rt logos ch \<noteq> []"
  shows "hd (js_sort by_width_desc (candidates rt logos ch)) \<in> set logos"
    and "qualifies rt ch (hd (js_sort by_width_desc (candidates rt logos ch)))"
    and "\<forall>l'\<in>set logos. qualifies rt ch l' \<longrightarrow>
           l_width l' \<le> l_width (hd (js_sort by_width_desc (candidates rt logos ch)))"
proof -
  let ?cs = "candidates rt logos ch"
  let ?w = "hd (js_sort by_width_desc ?cs)"
  have mem: "\<And>l. l \<in> set ?cs \<longleftrightarrow> l \<in> set logos \<and> qualifies rt ch l"
    by (simp add: candidates_def is_candidate_qualifies)
  from assms have "?w \<in> set ?cs" by (rule hd_js_sort_mem)
  with mem show "?w \<in> set logos" and "qualifies rt ch ?w" by blast+
  have "\<forall>l'\<in>set ?cs. l_width l' \<le> l_width ?w"
    by (simp add: hd_js_sort_widest)
  with mem show "\<forall>l'\<in>set logos. qualifies rt ch l' \<longrightarrow> l_width l' \<le> l_width ?w"
    by blast
qed

text \<open>
  C1, as stated, fails: a channel whose \<open>logo\<close> field is present but is the empty
  string, with no guide image and no logos, gets the URL templated from its id, not its
  \<open>logo\<close> field. With no logos, no case mapping is applied.
\<close>

theorem getPoster_priority_counterexample:
  "\<not> poster_rule ascii_runtime present [] bbc Null (getPoster ascii_runtime [] bbc Null)"
  by (simp add: poster_rule_def getPoster_def bbc_def guide_image_def candidates_def
      logo_template_def)

text \<open>
  C1, amended: \<open>getPoster\<close> resolves the poster by strict priority, where "present"
  means present and not the empty string: (1) the guide image if it is a non-empty
  string, even if logos exist; (2) otherwise, if some logo qualifies, the url of a
  qualifying logo of greatest width; (3) otherwise the channel's \<open>logo\<close> if it is a
  non-empty string that does not end in \<open>.svg\<close>; (4) otherwise, if the channel's id is
  a non-empty string, the URL templated from it; (5) otherwise the placeholder.
\<close>

theorem getPoster_priority:
  "poster_rule rt truthy logos ch gd (getPoster rt logos ch gd)"
proof (cases "candidates rt logos ch = []")
  case True
  then have "\<not> (\<exists>l\<in>set logos. qualifies rt ch l)"
    using candidates_empty_iff [of rt logos ch] by blast
  with True show ?thesis
    by (simp add: poster_rule_def getPoster_def)
next
  case False
  let ?w = "hd (js_sort by_width_desc (candidates rt logos ch))"
  from False have some: "\<exists>l\<in>set logos. qualifies rt ch l"
    using candidates_empty_iff [of rt logos ch] by blast
  have "\<exists>l\<in>set logos. qualifies rt ch l \<and> l_url ?w = l_url l \<and>
         (\<forall>l'\<in>set logos. qualifies rt ch l' \<longrightarrow> l_width l' \<le> l_width l)"
    using widest_candidate [OF False] by blast
  with False some show ?thesis
    by (simp add: poster_rule_def getPoster_def)
qed

text \<open>The five cases of the chain, each on a concrete channel.\<close>

theorem getPoster_priority_witness:
  "getPoster ascii_runtime [logo_small, logo_svg, logo_wide] bbc (Val show_details) =
     ''https://i.example/show.jpg'' \<and>
   getPoster ascii_runtime [logo_small, logo_svg, logo_wide] bbc Null =
     ''https://i.example/wide.png'' \<and>
   getPoster ascii_runtime [logo_svg] (bbc\<lparr>c_logo := Val ''https://i.example/own.png''\<rparr>) Null =
     ''https://i.example/own.png'' \<and>
   getPoster ascii_runtime [logo_svg] bbc Null = ''https://iptv-org.github.io/logo/BBCOne.uk.png'' \<and>
   getPoster ascii_runtime [logo_svg] (bbc\<lparr>c_id := Val []\<rparr>) Null = placeholder"
  using getPoster_priority [of ascii_runtime "[logo_small, logo_svg, logo_wide]" bbc "Val show_details"]
    getPoster_priority [of ascii_runtime "[logo_small, logo_svg, logo_wide]" bbc Null]
    getPoster_priority [of ascii_runtime "[logo_svg]"
      "bbc\<lparr>c_logo := Val ''https://i.example/own.png''\<rparr>" Null]
    getPoster_priority [of ascii_runtime "[logo_svg]" bbc Null]
    getPoster_priority [of ascii_runtime "[logo_svg]" "bbc\<lparr>c_id := Val []\<rparr>" Null]
  by (simp add: poster_rule_def qualifies_def guide_image_def bbc_def logo_small_def logo_wide_def
      logo_svg_def show_details_def ascii_defs logo_template_def suffix_to_prefix)

text \<open>
  C10, as stated, fails: a channel with a non-empty id whose own \<open>logo\<close> is the
  placeholder address gets that address from \<open>getPoster\<close>. With no logos, no case
  mapping is applied.
\<close>

theorem getPoster_placeholder_counterexample:
  "truthy (c_id mirror_channel) \<and> getPoster ascii_runtime [] mirror_channel Null = placeholder"
  by (simp add: getPoster_def mirror_channel_def guide_image_def candidates_def placeholder_def
      suffix_to_prefix)

text \<open>
  C10, amended: for a channel whose id is a non-empty string, \<open>getPoster\<close> returns the
  placeholder URL only when the data supplies that URL itself, as the guide image, as the
  url of a qualifying logo or as the channel's own logo; whenever the guide image,
  qualifying logos and the channel's own non-SVG logo are all absent, it returns the URL
  templated from the id, which is not the placeholder URL.
\<close>

theorem getPoster_placeholder_unreachable:
  assumes "c_id ch = Val i" and "i \<noteq> []"
  shows "(getPoster rt logos ch gd = placeholder \<longrightarrow>
            guide_image gd = Val placeholder \<or>
            (\<exists>l\<in>set logos. qualifies rt ch l \<and> l_url l = placeholder) \<or>
            c_logo ch = Val placeholder) \<and>
         (\<not> truthy (guide_image gd) \<and> \<not> (\<exists>l\<in>set logos. qualifies rt ch l) \<and>
          \<not> (truthy (c_logo ch) \<and> \<not> suffix ''.svg'' (to_str (c_logo ch)))
          \<longrightarrow> getPoster rt logos ch gd = logo_template i \<and> getPoster rt logos ch gd \<noteq> placeholder)"
proof (intro conjI impI)
  assume ret: "getPoster rt logos ch gd = placeholder"
  show "guide_image gd = Val placeholder \<or>
        (\<exists>l\<in>set logos. qualifies rt ch l \<and> l_url l = placeholder) \<or>
        c_logo ch = Val placeholder"
  proof (cases "truthy (guide_image gd)")
    case True
    with ret have "to_str (guide_image gd) = placeholder"
      by (simp add: getPoster_def)
    with True show ?thesis
      by (cases "guide_image gd") simp_all
  next
    case no_image: False
    show ?thesis
    proof (cases "candidates rt logos ch = []")
      case False
      with no_image ret
      have "l_url (hd (js_sort by_width_desc (candidates rt logos ch))) = placeholder"
        by (simp add: getPoster_def)
      with widest_candidate(1,2) [OF False] show ?thesis by blast
    next
      case True
      show ?thesis
      proof (cases "truthy (c_logo ch) \<and> \<not> suffix ''.svg'' (to_str (c_logo ch))")
        case own: True
        with no_image True ret have "to_str (c_logo ch) = placeholder"
          by (simp add: getPoster_def)
        with own show ?thesis
          by (cases "c_logo ch") simp_all
      next
        case False
        with no_image True assms have "getPoster rt logos ch gd = logo_template i"
          by (auto simp: getPoster_def)
        with ret show ?thesis
          by (simp add: logo_template_not_placeholder)
      qed
    qed
  qed
next
  assume "\<not> truthy (guide_image gd) \<and> \<not> (\<exists>l\<in>set logos. qualifies rt ch l) \<and>
          \<not> (truthy (c_logo ch) \<and> \<not> suffix ''.svg'' (to_str (c_logo ch)))"
  with assms have "getPoster rt logos ch gd = logo_template i"
    by (auto simp: getPoster_def candidates_empty_iff)
  then show "getPoster rt logos ch gd = logo_template i"
    and "getPoster rt logos ch gd \<noteq> placeholder"
    by (simp_all add: logo_template_not_placeholder)
qed

text \<open>
  A channel with an id, an empty logo field and only an SVG logo record; a channel whose
  own logo is the placeholder address.
\<close>

theorem getPoster_placeholder_unreachable_witness:
  "getPoster ascii_runtime [logo_svg] bbc Null = ''https://iptv-org.github.io/logo/BBCOne.uk.png'' \<and>
   getPoster ascii_runtime [logo_svg] bbc Null \<noteq> placeholder \<and>
   getPoster ascii_runtime [] mirror_channel Null = placeholder \<and>
   c_logo mirror_channel = Val placeholder"
  using getPoster_placeholder_unreachable [of bbc "''BBCOne.uk''" ascii_runtime "[logo_svg]" Null]
    getPoster_placeholder_unreachable [of mirror_channel "''Mirror.uk''" ascii_runtime "[]" Null]
  by (simp add: getPoster_def candidates_def is_candidate_def qualifies_def guide_image_def
      bbc_def mirror_channel_def logo_svg_def ascii_defs logo_template_def placeholder_def
      suffix_to_prefix)

section \<open>Guide details\<close>

text \<open>
  C6, as stated, fails: a guide record whose \<open>now\<close> is the empty string gets
  \<open>nowPlaying = "Unknown"\<close>; the empty string is not kept.
\<close>

theorem extractGuideDetails_counterexample:
  "extractGuideDetails (Val (empty_guide\<lparr>g_now := Val []\<rparr>)) \<noteq>
   guide_details_rule present (Val (empty_guide\<lparr>g_now := Val []\<rparr>))"
  by (simp add: extractGuideDetails_def guide_details_rule_def empty_guide_def or_else_def)

text \<open>
  C6, amended: \<open>extractGuideDetails(guide)\<close> returns \<open>null\<close> exactly when \<open>guide\<close> is
  absent; otherwise it returns the three fields, where the default (\<open>"Unknown"\<close>,
  \<open>"Unknown"\<close>, \<open>null\<close>) is substituted for a field that is absent or the empty
  string; on \<open>{}\<close> it returns the three defaults.
\<close>

theorem extractGuideDetails_defaults:
  "(extractGuideDetails g = Null \<longleftrightarrow> \<not> present g) \<and>
   extractGuideDetails g = guide_details_rule truthy g \<and>
   extractGuideDetails (Val empty_guide) =
     Val \<lparr>nowPlaying = ''Unknown'', nextShow = ''Unknown'', currentShowImage = Null\<rparr>"
  by (cases g) (simp_all add: extractGuideDetails_def guide_details_rule_def or_else_def
      empty_guide_def)

text \<open>A guide record with a title, an empty next title and an empty image; no record.\<close>

theorem extractGuideDetails_defaults_witness:
  "extractGuideDetails (Val bbc_guide) =
     Val \<lparr>nowPlaying = ''News'', nextShow = ''Unknown'', currentShowImage = Null\<rparr> \<and>
   extractGuideDetails Undefined = Null"
  using extractGuideDetails_defaults [of "Val bbc_guide"] extractGuideDetails_defaults [of Undefined]
  by (simp add: guide_details_rule_def bbc_guide_def)

section \<open>The id prefix\<close>

text \<open>
  C9: the id of the metadata object built by \<open>toMeta\<close> is \<open>iptv-\<close> followed by the
  channel's id; the stripping of the meta handler and that of the stream handler both
  give \<open>s\<close> back on \<open>iptv-\<close> followed by \<open>s\<close>, and they agree on every request id.
\<close>

theorem meta_id_prefix_roundtrip:
  "(c_id ch = Val s \<longrightarrow> m_id (toMeta rt table logos ch gd) = ''iptv-'' @ s) \<and>
   meta_channelId (''iptv-'' @ s) = s \<and>
   stream_channelId (''iptv-'' @ s) = s \<and>
   meta_channelId rid = stream_channelId rid"
proof -
  have "meta_channelId (''iptv-'' @ s) = s" "stream_channelId (''iptv-'' @ s) = s"
    by (simp_all only: meta_channelId_def stream_channelId_def strip_iptv)
  moreover have "meta_channelId rid = stream_channelId rid"
    by (simp add: meta_channelId_def stream_channelId_def)
  moreover have "c_id ch = Val s \<longrightarrow> m_id (toMeta rt table logos ch gd) = ''iptv-'' @ s"
    by (simp add: toMeta_def Let_def)
  ultimately show ?thesis by blast
qed

theorem meta_id_prefix_roundtrip_witness:
  "m_id (toMeta ascii_runtime sample_countries [] bbc Null) = ''iptv-BBCOne.uk'' \<and>
   meta_channelId ''iptv-BBCOne.uk'' = ''BBCOne.uk'' \<and>
   stream_channelId ''iptv-BBCOne.uk'' = ''BBCOne.uk''"
  using meta_id_prefix_roundtrip [of bbc "''BBCOne.uk''" ascii_runtime sample_countries "[]" Null "[]"]
  by (simp add: bbc_def)

section \<open>The meta handler\<close>

text \<open>
  C7: for a request id \<open>iptv-\<close> followed by \<open>s\<close>, if no channel of the cached list has
  id \<open>s\<close> the meta handler answers with the empty placeholder; if some channel has, it
  answers with the metadata object that \<open>toMeta\<close> builds from such a channel and the
  guide details extracted for it.
\<close>

theorem meta_handler_lookup:
  "((\<forall>c\<in>set chs. c_id c \<noteq> Val s) \<longrightarrow>
      meta_handler rt table logos chs gds (''iptv-'' @ s) = EmptyMeta) \<and>
   ((\<exists>c\<in>set chs. c_id c = Val s) \<longrightarrow>
      (\<exists>c\<in>set chs. c_id c = Val s \<and>
         meta_handler rt table logos chs gds (''iptv-'' @ s) =
           Meta (toMeta rt table logos c (extractGuideDetails (getGuideInfo gds (c_id c))))))"
proof -
  have strip: "meta_channelId (''iptv-'' @ s) = s"
    by (simp only: meta_channelId_def strip_iptv)
  show ?thesis
  proof (cases rule: js_find_cases [of "\<lambda>c. c_id c = Val s" chs])
    case 1
    then show ?thesis using strip by (simp add: meta_handler_def)
  next
    case (2 i)
    then have "chs ! i \<in> set chs" by simp
    with 2 show ?thesis using strip by (auto simp: meta_handler_def)
  qed
qed

theorem meta_handler_lookup_witness:
  "meta_handler ascii_runtime sample_countries [logo_small] [bbc] [bbc_guide] ''iptv-BBCOne.uk'' =
     Meta (toMeta ascii_runtime sample_countries [logo_small] bbc (extractGuideDetails (Val bbc_guide))) \<and>
   meta_handler ascii_runtime sample_countries [logo_small] [bbc] [bbc_guide] ''iptv-unknownid'' = EmptyMeta"
  using meta_handler_lookup [of "[bbc]" "''BBCOne.uk''" ascii_runtime sample_countries
      "[logo_small]" "[bbc_guide]"]
    meta_handler_lookup [of "[bbc]" "''unknownid''" ascii_runtime sample_countries
      "[logo_small]" "[bbc_guide]"]
  by (simp add: bbc_def bbc_guide_def getGuideInfo_def js_find_def)

section \<open>The stream handler\<close>

text \<open>
  C8: for a request id \<open>iptv-\<close> followed by \<open>s\<close>, if some record of the cached stream
  list has channel \<open>s\<close>, the stream handler returns the one-element list holding the url
  of the first such record, with title \<open>Live\<close>; if none has, it returns the empty list.
\<close>

theorem stream_handler_first_match:
  "((\<forall>st\<in>set strs. s_channel st \<noteq> Val s) \<longrightarrow> stream_handler strs (''iptv-'' @ s) = []) \<and>
   ((\<exists>st\<in>set strs. s_channel st = Val s) \<longrightarrow>
      (\<exists>i<length strs. s_channel (strs ! i) = Val s \<and> (\<forall>j<i. s_channel (strs ! j) \<noteq> Val s) \<and>
         stream_handler strs (''iptv-'' @ s) = [\<lparr>url = s_url (strs ! i), title = ''Live''\<rparr>]))"
proof -
  have strip: "stream_channelId (''iptv-'' @ s) = s"
    by (simp only: stream_channelId_def strip_iptv)
  show ?thesis
  proof (cases rule: js_find_cases [of "\<lambda>st. s_channel st = Val s" strs])
    case 1
    then show ?thesis using strip by (simp add: stream_handler_def)
  next
    case (2 i)
    then show ?thesis using strip by (auto simp: stream_handler_def)
  qed
qed

theorem stream_handler_first_match_witness:
  "stream_handler [orphan_stream, bbc_mirror, bbc_stream] ''iptv-BBCOne.uk'' =
     [\<lparr>url = ''https://s.example/mirror.m3u8'', title = ''Live''\<rparr>] \<and>
   stream_handler [orphan_stream] ''iptv-BBCOne.uk'' = []"
  using stream_handler_first_match [of "[orphan_stream, bbc_mirror, bbc_stream]" "''BBCOne.uk''"]
    stream_handler_first_match [of "[orphan_stream]" "''BBCOne.uk''"]
  by (auto simp: orphan_stream_def bbc_mirror_def bbc_stream_def less_Suc_eq_0_disj nth_Cons')

section \<open>The catalog handler\<close>

lemmas sample_defs = bbc_def itv_def cnn_def bbc_stream_def cnn_stream_def itv_stream_def
  no_config_def no_params_def

lemma replace_first_drop:
  "prefix pat s \<Longrightarrow> replace_first pat [] s = drop (length pat) s"
  by (metis append_Nil prefixE replace_first_prefix append_eq_conv_conj)

lemma categories_some:
  "(case c_categories c of Val cs \<Rightarrow> list_ex p cs | _ \<Rightarrow> False) \<longleftrightarrow> (\<exists>g\<in>set (categories_of c). p g)"
  by (auto simp: categories_of_def list_ex_iff split: js.splits)

lemma categories_mem:
  "(case c_categories c of Val cs \<Rightarrow> g \<in> set cs | _ \<Rightarrow> False) \<longleftrightarrow> g \<in> set (categories_of c)"
  by (simp add: categories_of_def split: js.splits)

lemma catalog_results_filter:
  "catalog_results rt cfg chs strs cid ps =
     filter (search_match rt truthy ps)
       (filter (genre_match truthy ps)
         (filter (allowed_genre cfg)
           (filter (country_match rt cid)
             (filter (has_stream strs) chs))))"
proof -
  have r1: "filter (\<lambda>c. list_ex (\<lambda>s. s_channel s = c_id c) strs) chs = filter (has_stream strs) chs"
    by (rule filter_cong) (simp_all add: has_stream_def list_ex_iff)
  have r2: "\<And>xs. (if prefix ''iptv-country-'' cid
                then filter (\<lambda>c. c_country c = Val (toUpperCase rt (replace_first ''iptv-country-'' [] cid))) xs
                else xs) = filter (country_match rt cid) xs"
    by (auto simp: country_match_def country_code_def replace_first_drop
        simp del: replace_first.simps intro!: filter_cong)
  have r3: "\<And>xs. (if genres cfg \<noteq> []
                then filter (\<lambda>c. case c_categories c of
                                   Val cs \<Rightarrow> list_ex (\<lambda>g. g \<in> set (genres cfg)) cs
                                 | _ \<Rightarrow> False) xs
                else xs) = filter (allowed_genre cfg) xs"
    by (auto simp: allowed_genre_def categories_some intro!: filter_cong)
  have r4: "\<And>xs. (if truthy (genre ps)
                then filter (\<lambda>c. case c_categories c of
                                   Val cs \<Rightarrow> to_str (genre ps) \<in> set cs
                                 | _ \<Rightarrow> False) xs
                else xs) = filter (genre_match truthy ps) xs"
    by (auto simp: genre_match_def categories_mem intro!: filter_cong)
  have r5: "\<And>xs. (if truthy (search ps)
                then filter (\<lambda>c. includes_str (toLowerCase rt (c_name c))
                                   (toLowerCase rt (to_str (search ps)))) xs
                else xs) = filter (search_match rt truthy ps) xs"
    by (auto simp: search_match_def includes_str_sublist intro!: filter_cong)
  show ?thesis
    unfolding catalog_results_def Let_def r1 r2 r3 r4 r5 ..
qed

text \<open>
  C2, as stated, fails: with a \<open>genre\<close> parameter supplied as the empty string, the
  handler applies no genre filter and keeps a channel whose categories do not contain
  the empty string. On this request (\<open>iptv-all\<close>, no search) no case mapping is applied.
\<close>

theorem catalog_handler_counterexample:
  "catalog_handler ascii_runtime sample_countries [] no_config [bbc] [bbc_stream] [] ''iptv-all''
     (no_params\<lparr>genre := Val []\<rparr>) \<noteq>
   catalog_rule ascii_runtime present sample_countries [] no_config [bbc] [bbc_stream] [] ''iptv-all''
     (no_params\<lparr>genre := Val []\<rparr>)"
  by (simp add: catalog_handler_def catalog_results_def catalog_rule_def has_stream_def
      country_match_def allowed_genre_def genre_match_def search_match_def categories_of_def
      bbc_def bbc_stream_def no_config_def no_params_def)

text \<open>
  C2, amended: the catalog handler's result is the channel list filtered, in this
  order, by: having a stream record; (if the catalog id starts with \<open>iptv-country-\<close>)
  country match; (if the settings' genre list is non-empty) having a category in it; (if a
  non-empty \<open>genre\<close> parameter is supplied) categories containing that genre; (if a
  non-empty \<open>search\<close> parameter is supplied) name containing the query
  case-insensitively; the metadata objects are in the order of the surviving channels in
  the upstream list.
\<close>

theorem catalog_handler_pipeline:
  "catalog_handler rt table logos cfg chs strs gds cid ps =
     catalog_rule rt truthy table logos cfg chs strs gds cid ps \<and>
   subseq (catalog_results rt cfg chs strs cid ps) chs"
  by (simp add: catalog_handler_def catalog_rule_def catalog_results_filter)

text \<open>A country catalog with a genre allow-list and a search in capitals.\<close>

theorem catalog_handler_pipeline_witness:
  "catalog_handler ascii_runtime sample_countries [] (no_config\<lparr>genres := [''news'']\<rparr>) [bbc, itv, cnn]
     [cnn_stream, bbc_stream, itv_stream] [] ''iptv-country-uk'' (no_params\<lparr>search := Val ''NEWS''\<rparr>) =
   [toMeta ascii_runtime sample_countries [] itv Null]"
  using catalog_handler_pipeline [of ascii_runtime sample_countries "[]" "no_config\<lparr>genres := [''news'']\<rparr>"
      "[bbc, itv, cnn]" "[cnn_stream, bbc_stream, itv_stream]" "[]" "''iptv-country-uk''"
      "no_params\<lparr>search := Val ''NEWS''\<rparr>"]
  by (simp add: catalog_rule_def has_stream_def country_match_def country_code_def
      allowed_genre_def genre_match_def search_match_def categories_of_def sample_defs ascii_defs
      sublist_code(3) getGuideInfo_def js_find_def extractGuideDetails_def)

text \<open>
  C3: a channel with no stream record whose channel is the channel's id is not among the
  channels whose metadata objects make up the catalog handler's result, for any catalog
  id, parameters and settings.
\<close>

theorem catalog_requires_stream:
  assumes "\<not> (\<exists>s\<in>set strs. s_channel s = c_id c)"
  shows "c \<notin> set (catalog_results rt cfg chs strs cid ps) \<and>
         catalog_handler rt table logos cfg chs strs gds cid ps =
           map (\<lambda>ch. toMeta rt table logos ch (extractGuideDetails (getGuideInfo gds (c_id ch))))
             (filter (\<lambda>x. x \<noteq> c) (catalog_results rt cfg chs strs cid ps))"
proof -
  from assms have "c \<notin> set (catalog_results rt cfg chs strs cid ps)"
    by (simp add: catalog_results_filter has_stream_def)
  moreover from this have "filter (\<lambda>x. x \<noteq> c) (catalog_results rt cfg chs strs cid ps) =
      catalog_results rt cfg chs strs cid ps"
    by (simp add: filter_id_conv) blast
  ultimately show ?thesis
    by (simp add: catalog_handler_def)
qed

text \<open>A channel list in which one channel has no stream.\<close>

theorem catalog_requires_stream_witness:
  "itv \<notin> set (catalog_results ascii_runtime no_config [bbc, itv, cnn] [cnn_stream, bbc_stream] ''iptv-all'' no_params)"
  using catalog_requires_stream [of "[cnn_stream, bbc_stream]" itv ascii_runtime no_config "[bbc, itv, cnn]"
      "''iptv-all''" no_params sample_countries "[]" "[]"]
  by (simp add: sample_defs)

text \<open>
  C4: for a catalog id \<open>iptv-country-\<close> followed by a code, the catalog handler's result
  is made of the metadata objects of the surviving channels, every one of which has the
  uppercased code as its country; two codes with the same uppercase form give the same
  catalog.
\<close>

theorem catalog_country:
  "catalog_handler rt table logos cfg chs strs gds (''iptv-country-'' @ code) ps =
     map (\<lambda>ch. toMeta rt table logos ch (extractGuideDetails (getGuideInfo gds (c_id ch))))
       (catalog_results rt cfg chs strs (''iptv-country-'' @ code) ps) \<and>
   (\<forall>c\<in>set (catalog_results rt cfg chs strs (''iptv-country-'' @ code) ps).
      c_country c = Val (toUpperCase rt code)) \<and>
   (toUpperCase rt code = toUpperCase rt code' \<longrightarrow>
      catalog_handler rt table logos cfg chs strs gds (''iptv-country-'' @ code) ps =
      catalog_handler rt table logos cfg chs strs gds (''iptv-country-'' @ code') ps)"
proof -
  have cm: "country_match rt (''iptv-country-'' @ k) = (\<lambda>c. c_country c = Val (toUpperCase rt k))"
    for k
    by (rule ext) (simp add: country_match_def country_code_def)
  show ?thesis
    using cm [of code] cm [of code']
    by (simp add: catalog_handler_def catalog_results_filter)
qed

text \<open>The catalog of \<open>iptv-country-us\<close>.\<close>

theorem catalog_country_witness:
  "catalog_handler ascii_runtime sample_countries [] no_config [bbc, itv, cnn]
       [cnn_stream, bbc_stream] [] ''iptv-country-us'' no_params =
     [toMeta ascii_runtime sample_countries [] cnn Null] \<and>
   c_country cnn = Val ''US'' \<and>
   catalog_handler ascii_runtime sample_countries [] no_config [bbc, itv, cnn]
       [cnn_stream, bbc_stream] [] ''iptv-country-us'' no_params =
   catalog_handler ascii_runtime sample_countries [] no_config [bbc, itv, cnn]
       [cnn_stream, bbc_stream] [] ''iptv-country-US'' no_params"
  using catalog_country [of ascii_runtime sample_countries "[]" no_config "[bbc, itv, cnn]"
      "[cnn_stream, bbc_stream]" "[]" "''us''" no_params "''US''"]
  by (simp add: ascii_defs catalog_handler_def catalog_results_def sample_defs getGuideInfo_def
      js_find_def extractGuideDetails_def)

section \<open>The cache\<close>

lemma is_obj_present: "is_obj x = present x"
  by (cases x) simp_all

lemma getData_hit: "fresh st now \<Longrightarrow> getData now up now' st = (Inr (cache st), st)"
  by (simp add: getData_def fresh_def is_obj_present)

lemma getData_miss:
  "\<not> fresh st now \<Longrightarrow>
   getData now (all_resolved c s g) now' st =
     (Inr (cache_of c s g),
      st\<lparr>cache := cache_of c s g, lastFetch := now', requests := requests st @ trio_urls\<rparr>)"
  by (auto simp: getData_def fresh_def is_obj_present all_resolved_def cache_of_def trio_urls_def
      Let_def)

lemma getData_rejected:
  "\<not> fresh st now \<Longrightarrow> any_rejected up \<Longrightarrow>
   getData now up now' st = (Inl FetchFailed, st\<lparr>requests := requests st @ trio_urls\<rparr>)"
  by (auto simp: getData_def fresh_def is_obj_present any_rejected_def trio_urls_def Let_def
      split: response.splits)

text \<open>
  C5: when the cache is fresh, \<open>getData\<close> returns the cached value and leaves the
  state, the request log included, as it is. Otherwise it issues the three requests; when
  they all resolve it replaces the three cached lists and the timestamp together and
  returns the new value, and every later call less than the TTL after that timestamp
  returns the same value with no further request; when one is rejected, the cached lists
  and the timestamp stay as they were.
\<close>

theorem getData_cache:
  "(fresh st now \<longrightarrow> getData now up now' st = (Inr (cache st), st)) \<and>
   (\<not> fresh st now \<longrightarrow>
      getData now (all_resolved c s g) now' st =
        (Inr (cache_of c s g),
         st\<lparr>cache := cache_of c s g, lastFetch := now', requests := requests st @ trio_urls\<rparr>) \<and>
      (\<forall>later up2 later'. later - now' < TTL \<longrightarrow>
         getData later up2 later' (snd (getData now (all_resolved c s g) now' st)) =
           (Inr (cache_of c s g), snd (getData now (all_resolved c s g) now' st)))) \<and>
   (\<not> fresh st now \<and> any_rejected up \<longrightarrow>
      getData now up now' st = (Inl FetchFailed, st\<lparr>requests := requests st @ trio_urls\<rparr>))"
proof -
  have "fresh (st\<lparr>cache := cache_of c s g, lastFetch := now',
                   requests := requests st @ trio_urls\<rparr>) later" if "later - now' < TTL" for later
    using that by (simp add: fresh_def cache_of_def)
  then show ?thesis
    by (simp add: getData_hit getData_miss getData_rejected)
qed

text \<open>A first call, a call within the hour, and a call one hour after the fetch.\<close>

theorem getData_cache_witness:
  "getData 1000 sample_upstream 1200 initial_store =
     (Inr (cache_of [bbc] [bbc_stream] [bbc_guide]),
      \<lparr>cache = cache_of [bbc] [bbc_stream] [bbc_guide], lastFetch = 1200, requests = trio_urls\<rparr>) \<and>
   getData 3601199 sample_upstream 3601500
       \<lparr>cache = cache_of [bbc] [bbc_stream] [bbc_guide], lastFetch = 1200, requests = trio_urls\<rparr> =
     (Inr (cache_of [bbc] [bbc_stream] [bbc_guide]),
      \<lparr>cache = cache_of [bbc] [bbc_stream] [bbc_guide], lastFetch = 1200, requests = trio_urls\<rparr>) \<and>
   getData 3601200 (all_resolved [] [] []) 3601500
       \<lparr>cache = cache_of [bbc] [bbc_stream] [bbc_guide], lastFetch = 1200, requests = trio_urls\<rparr> =
     (Inr (cache_of [] [] []),
      \<lparr>cache = cache_of [] [] [], lastFetch = 3601500, requests = trio_urls @ trio_urls\<rparr>)"
  using getData_cache [of initial_store 1000 sample_upstream 1200 "[bbc]" "[bbc_stream]" "[bbc_guide]"]
    getData_cache [of "\<lparr>cache = cache_of [bbc] [bbc_stream] [bbc_guide], lastFetch = 1200, requests = trio_urls\<rparr>"
      3601199 sample_upstream 3601500 "[]" "[]" "[]"]
    getData_cache [of "\<lparr>cache = cache_of [bbc] [bbc_stream] [bbc_guide], lastFetch = 1200, requests = trio_urls\<rparr>"
      3601200 "all_resolved [] [] []" 3601500 "[]" "[]" "[]"]
  by (simp add: fresh_def initial_store_def sample_upstream_def TTL_def cache_of_def)

end
